theory Spec2Isabelle
  imports Complex_Main
begin

section \<open>Values, exceptions and the Snowpark session\<close>

text \<open>
  The notebooks of the repository are sequences of calls into the Snowpark SDK. The
  managed service behind the session is not part of the repository: it is a parameter
  \<open>svc\<close> of every operation that reaches it. The service has a state of its own
  (type \<open>'w\<close>), answers a request with rows or with an exception, and moves to a new
  state.
\<close>

text \<open>Values in the rows the service returns, and cells of a frame loaded from CSV.\<close>

datatype val = Text string | Vector "real list"

datatype cell = Num real | Str string | NaN

text \<open>Only subclasses of Python's \<open>Exception\<close> are modelled.\<close>

datatype error =
    IndexError
  | KeyError string
  | TypeError
  | ValueError
  | SnowparkSQLException string

type_synonym row = "(string \<times> val) list"

text \<open>A pandas-style frame: its columns in order, each a name and its cells.\<close>

type_synonym series = "cell list"
type_synonym frame = "(string \<times> series) list"

text \<open>Column expressions and lazy Snowpark dataframes, as the wrapper classes build them.\<close>

datatype column =
    Col string
  | CallFunction string column
  | Alias column string

datatype sp_dataframe =
    CreateDataframe "val list list" "string list"
  | Select sp_dataframe "column list"

text \<open>What a notebook sends to the service through the session handle.\<close>

datatype request =
    CollectRows sp_dataframe
  | WritePandas frame string bool bool
  | TableShow string

type_synonym 'w service = "'w \<Rightarrow> request \<Rightarrow> (error + row list) \<times> 'w"

record 'w snowpark_session =
  submitted :: "request list"
  remote :: 'w

text \<open>
  Python code with exceptions and a mutable state: a computation returns an exception or
  a value, together with the state it leaves behind. The state reached before an
  exception is kept, as the Python heap keeps it.
\<close>

type_synonym ('s, 'a) py = "'s \<Rightarrow> (error + 'a) \<times> 's"

definition py_read :: "('s \<Rightarrow> 'a) \<Rightarrow> ('s, 'a) py" where
  "py_read f s = (Inr (f s), s)"


definition py_bind :: "('s, 'a) py \<Rightarrow> ('a \<Rightarrow> ('s, 'b) py) \<Rightarrow> ('s, 'b) py" where
  "py_bind m f s = (case m s of (Inl e, s') \<Rightarrow> (Inl e, s') | (Inr x, s') \<Rightarrow> f x s')"


text \<open>
  The one call that leaves the notebook: the request is recorded in the session and the
  service answers it.
\<close>

definition submit :: "'w service \<Rightarrow> request \<Rightarrow> ('w snowpark_session, row list) py" where
  "submit svc q s =
     (case svc (remote s) q of
        (r, w') \<Rightarrow> (r, \<lparr>submitted = submitted s @ [q], remote = w'\<rparr>))"

definition collect :: "'w service \<Rightarrow> sp_dataframe \<Rightarrow> ('w snowpark_session, row list) py" where
  "collect svc df = submit svc (CollectRows df)"

text \<open>\<open>result[0]\<close> on the collected list and \<open>row[name]\<close> on a row.\<close>

definition first_row :: "row list \<Rightarrow> error + row" where
  "first_row result = (case result of [] \<Rightarrow> Inl IndexError | r # _ \<Rightarrow> Inr r)"

definition row_get :: "row \<Rightarrow> string \<Rightarrow> error + val" where
  "row_get r name = (case map_of r name of None \<Rightarrow> Inl (KeyError name) | Some v \<Rightarrow> Inr v)"

definition lift_result :: "error + 'a \<Rightarrow> ('s, 'a) py" where
  "lift_result r s = (r, s)"

section \<open>The wrapper classes of the RAG notebook\<close>

text \<open>
  \<open>CortexEmbedding\<close> and \<open>CortexLLM\<close> have one field, the session; \<open>self\<close> is
  modelled by it.
\<close>

text \<open>
  \<^verbatim>\<open>df = self.session.create_dataframe([[text]], schema=["TEXT"])\<close>
  \<^verbatim>\<open>result_df = df.select(\<close>
  \<^verbatim>\<open>    self.session.call_function("CORTEX_EMBED", df["TEXT"]).alias("EMBEDDING"))\<close>
  \<^verbatim>\<open>result = result_df.collect()\<close>
  \<^verbatim>\<open>embedding = result[0]["EMBEDDING"]\<close>
  \<^verbatim>\<open>return embedding\<close>
\<close>

definition embed_frame :: "string \<Rightarrow> sp_dataframe" where
  "embed_frame text =
     Select (CreateDataframe [[Text text]] [''TEXT''])
       [Alias (CallFunction ''CORTEX_EMBED'' (Col ''TEXT'')) ''EMBEDDING'']"

definition get_text_embedding :: "'w service \<Rightarrow> string \<Rightarrow> ('w snowpark_session, val) py" where
  "get_text_embedding svc text =
     py_bind (collect svc (embed_frame text)) (\<lambda>result.
     py_bind (lift_result (first_row result)) (\<lambda>r.
     lift_result (row_get r ''EMBEDDING'')))"

text \<open>
  An \<open>async def\<close>: calling it only builds a coroutine, the body runs when the coroutine
  is awaited.
\<close>

datatype ('s, 'a) coroutine = Coroutine "('s, 'a) py"

fun await :: "('s, 'a) coroutine \<Rightarrow> ('s, 'a) py" where
  "await (Coroutine body) = body"

definition aget_text_embedding ::
  "'w service \<Rightarrow> string \<Rightarrow> ('w snowpark_session, val) coroutine" where
  "aget_text_embedding svc text = Coroutine (\<lambda>s. get_text_embedding svc text s)"






section \<open>The notebook kernel and the raw-input cell of the RAG notebook\<close>

datatype out =
    OStr string
  | OVal val
  | OErr error
  | OFrame frame
  | OSeries series
  | ORows "row list"

record 'w kernel =
  session :: "'w snowpark_session"
  stdout :: "out list list"


definition on_session ::
  "('w snowpark_session, 'a) py \<Rightarrow> (('w, 'z) kernel_scheme, 'a) py" where
  "on_session m st = (case m (session st) of (r, s') \<Rightarrow> (r, st\<lparr>session := s'\<rparr>))"

definition print_py :: "out list \<Rightarrow> (('w, 'z) kernel_scheme, unit) py" where
  "print_py args st = (Inr (), st\<lparr>stdout := stdout st @ [args]\<rparr>)"


section \<open>The dataframe notebook\<close>














text \<open>
  The names of the notebook after \<open>IMPORT_CSVS_INTO_DFS\<close>, and the list of library
  calls made so far.
\<close>

record 'w modin_nb = "'w kernel" +
  lib_calls :: "string list"
  application_record_df :: frame
  credit_record_df :: frame
  grouped_df :: "frame option"




text \<open>
  \<^verbatim>\<open>session.write_pandas(application_record_df, table_name='APPLICATION_RECORD',\<close>
  \<^verbatim>\<open>                     auto_create_table=True, overwrite=True)\<close>
  \<^verbatim>\<open>session.write_pandas(credit_record_df, table_name='CREDIT_RECORD',\<close>
  \<^verbatim>\<open>                     auto_create_table=True, overwrite=True)\<close>
\<close>

definition write_pandas ::
  "'w service \<Rightarrow> frame \<Rightarrow> string \<Rightarrow> bool \<Rightarrow> bool \<Rightarrow> ('w snowpark_session, row list) py" where
  "write_pandas svc df table_name auto_create_table overwrite =
     submit svc (WritePandas df table_name auto_create_table overwrite)"

definition UPLOAD_TO_TABLES :: "'w service \<Rightarrow> ('w modin_nb, unit) py" where
  "UPLOAD_TO_TABLES svc =
     py_bind (py_read application_record_df) (\<lambda>df.
     py_bind (on_session (write_pandas svc df ''APPLICATION_RECORD'' True True)) (\<lambda>_.
     py_bind (py_read credit_record_df) (\<lambda>df.
     py_bind (on_session (write_pandas svc df ''CREDIT_RECORD'' True True)) (\<lambda>_.
     py_read (\<lambda>_. ())))))"


text \<open>
  \<^verbatim>\<open>grouped_df = application_record_df.groupby(['CODE_GENDER', 'NAME_INCOME_TYPE'])['AGE']\<close>
  \<^verbatim>\<open>                 .mean().reset_index()\<close>
  \<^verbatim>\<open>grouped_df.rename(columns={'AGE': 'AVG_AGE'}, inplace=True)\<close>
  \<^verbatim>\<open>application_record_df = application_record_df.merge(\<close>
  \<^verbatim>\<open>    grouped_df, on=['CODE_GENDER', 'NAME_INCOME_TYPE'], how='left')\<close>
  \<^verbatim>\<open>application_record_df[['CODE_GENDER', 'NAME_INCOME_TYPE', 'AGE', 'AVG_AGE']].head()\<close>
\<close>



text \<open>
  \<^verbatim>\<open>session.write_pandas(application_record_df, table_name='APPLICATION_RECORD',\<close>
  \<^verbatim>\<open>                     auto_create_table=True, overwrite=True)\<close>
  \<^verbatim>\<open>session.table('APPLICATION_RECORD').show()\<close>
\<close>

definition WRITE_TO_SNOWFLAKE :: "'w service \<Rightarrow> ('w modin_nb, unit) py" where
  "WRITE_TO_SNOWFLAKE svc =
     py_bind (py_read application_record_df) (\<lambda>df.
     py_bind (on_session (write_pandas svc df ''APPLICATION_RECORD'' True True)) (\<lambda>_.
     py_bind (on_session (submit svc (TableShow ''APPLICATION_RECORD''))) (\<lambda>rows.
     print_py [ORows rows])))"










section \<open>Properties of the wrapper classes\<close>



text \<open>
  C8: awaiting the coroutine that \<open>aget_text_embedding\<close> returns gives, for every text
  and from every session state, the same result and the same session state as
  \<open>get_text_embedding\<close>.
\<close>

theorem aget_text_embedding_eq:
  "await (aget_text_embedding svc text) s = get_text_embedding svc text s"
  by (simp add: aget_text_embedding_def)






section \<open>Properties of the dataframe notebook\<close>










lemma UPLOAD_TO_TABLES_unfold:
  "UPLOAD_TO_TABLES svc st =
     (case svc (remote (session st))
             (WritePandas (application_record_df st) ''APPLICATION_RECORD'' True True) of
        (Inl e, w1) \<Rightarrow>
          (Inl e,
           st\<lparr>session := \<lparr>submitted = submitted (session st) @
                  [WritePandas (application_record_df st) ''APPLICATION_RECORD'' True True],
                remote = w1\<rparr>\<rparr>)
      | (Inr _, w1) \<Rightarrow>
          (case svc w1 (WritePandas (credit_record_df st) ''CREDIT_RECORD'' True True) of
             (r, w2) \<Rightarrow>
               (map_sum id (\<lambda>_. ()) r,
                st\<lparr>session := \<lparr>submitted = submitted (session st) @
                       [WritePandas (application_record_df st) ''APPLICATION_RECORD'' True True,
                        WritePandas (credit_record_df st) ''CREDIT_RECORD'' True True],
                     remote = w2\<rparr>\<rparr>)))"
  by (simp add: UPLOAD_TO_TABLES_def py_bind_def py_read_def on_session_def write_pandas_def
      submit_def split: prod.splits sum.splits)

lemma WRITE_TO_SNOWFLAKE_unfold:
  "WRITE_TO_SNOWFLAKE svc st =
     (case svc (remote (session st))
             (WritePandas (application_record_df st) ''APPLICATION_RECORD'' True True) of
        (Inl e, w1) \<Rightarrow>
          (Inl e,
           st\<lparr>session := \<lparr>submitted = submitted (session st) @
                  [WritePandas (application_record_df st) ''APPLICATION_RECORD'' True True],
                remote = w1\<rparr>\<rparr>)
      | (Inr _, w1) \<Rightarrow>
          (case svc w1 (TableShow ''APPLICATION_RECORD'') of
             (Inl e, w2) \<Rightarrow>
               (Inl e,
                st\<lparr>session := \<lparr>submitted = submitted (session st) @
                       [WritePandas (application_record_df st) ''APPLICATION_RECORD'' True True,
                        TableShow ''APPLICATION_RECORD''],
                     remote = w2\<rparr>\<rparr>)
           | (Inr rows, w2) \<Rightarrow>
               (Inr (),
                st\<lparr>session := \<lparr>submitted = submitted (session st) @
                       [WritePandas (application_record_df st) ''APPLICATION_RECORD'' True True,
                        TableShow ''APPLICATION_RECORD''],
                     remote = w2\<rparr>,
                   stdout := stdout st @ [[ORows rows]]\<rparr>)))"
  by (simp add: WRITE_TO_SNOWFLAKE_def py_bind_def py_read_def on_session_def write_pandas_def
      submit_def print_py_def split: prod.splits sum.splits)


text \<open>
  C7: both upload cells hand the frame bound to the name to \<open>session.write_pandas\<close> as
  it is: the request recorded in the session carries \<open>application_record_df\<close> (and
  \<open>credit_record_df\<close>) unchanged, the second request follows only when the first did
  not raise, no call into the dataframe library is made, and the frames bound in the
  notebook are the same after the cell.
\<close>

theorem upload_passthrough:
  "submitted (session (snd (UPLOAD_TO_TABLES svc st))) =
     submitted (session st) @
       (case fst (svc (remote (session st))
                   (WritePandas (application_record_df st) ''APPLICATION_RECORD'' True True)) of
          Inl e \<Rightarrow> [WritePandas (application_record_df st) ''APPLICATION_RECORD'' True True]
        | Inr _ \<Rightarrow> [WritePandas (application_record_df st) ''APPLICATION_RECORD'' True True,
                    WritePandas (credit_record_df st) ''CREDIT_RECORD'' True True])
   \<and> snd (UPLOAD_TO_TABLES svc st) = st\<lparr>session := session (snd (UPLOAD_TO_TABLES svc st))\<rparr>
   \<and> submitted (session (snd (WRITE_TO_SNOWFLAKE svc st))) =
     submitted (session st) @
       (case fst (svc (remote (session st))
                   (WritePandas (application_record_df st) ''APPLICATION_RECORD'' True True)) of
          Inl e \<Rightarrow> [WritePandas (application_record_df st) ''APPLICATION_RECORD'' True True]
        | Inr _ \<Rightarrow> [WritePandas (application_record_df st) ''APPLICATION_RECORD'' True True,
                    TableShow ''APPLICATION_RECORD''])
   \<and> application_record_df (snd (WRITE_TO_SNOWFLAKE svc st)) = application_record_df st
   \<and> credit_record_df (snd (WRITE_TO_SNOWFLAKE svc st)) = credit_record_df st
   \<and> grouped_df (snd (WRITE_TO_SNOWFLAKE svc st)) = grouped_df st
   \<and> lib_calls (snd (WRITE_TO_SNOWFLAKE svc st)) = lib_calls st"
  by (simp add: UPLOAD_TO_TABLES_unfold WRITE_TO_SNOWFLAKE_unfold split: prod.splits sum.splits)
















end
